theory Spec2Isabelle
  imports Complex_Main
begin

section \<open>Values\<close>

text \<open>
  The function under study is \<^verbatim>\<open>extinction_ratio_ccm\<close> of
  \<^verbatim>\<open>sncosmo/utils/extinction.py\<close>. Its numbers are IEEE doubles. Finite doubles are
  idealised as reals (rounding and overflow are not modelled); the special values that
  decide the validation, the infinities and NaN, are kept as constructors of their own.
\<close>

datatype pyfloat = Fin real | PInf | NInf | NaN

text \<open>Comparison of a float with a finite constant. Every comparison with NaN is false.\<close>

fun flt :: "pyfloat \<Rightarrow> real \<Rightarrow> bool" where
  "flt (Fin v) c = (v < c)"
| "flt PInf c = False"
| "flt NInf c = True"
| "flt NaN c = False"

fun fgt :: "pyfloat \<Rightarrow> real \<Rightarrow> bool" where
  "fgt (Fin v) c = (v > c)"
| "fgt PInf c = True"
| "fgt NInf c = False"
| "fgt NaN c = False"

fun fge :: "pyfloat \<Rightarrow> real \<Rightarrow> bool" where
  "fge (Fin v) c = (v \<ge> c)"
| "fge PInf c = True"
| "fge NInf c = False"
| "fge NaN c = False"

text \<open>
  \<^verbatim>\<open>1.e4 / w\<close> under numpy's default error state: division of a non-zero number by
  zero gives infinity (with a warning, not an exception), division by an infinity gives
  zero, NaN propagates.
\<close>

fun inv_micron :: "pyfloat \<Rightarrow> pyfloat" where
  "inv_micron (Fin w) = (if w = 0 then PInf else Fin (10000 / w))"
| "inv_micron PInf = Fin 0"
| "inv_micron NInf = Fin 0"
| "inv_micron NaN = NaN"

text \<open>
  The finite value of a float. The arithmetic of the region formulas is modelled on finite
  values only; \<open>the_fin\<close> is left unspecified elsewhere. No theorem below depends on it
  there: an infinity is refused by the range check, and no mask selects a NaN.
\<close>

fun the_fin :: "pyfloat \<Rightarrow> real" where
  "the_fin (Fin v) = v"

section \<open>Arrays\<close>

text \<open>
  The argument \<^verbatim>\<open>wavelength\<close> is documented as "float or list_like"; the result is a
  float or a one-dimensional array.
\<close>

datatype 'a array_like = Scalar 'a | Sequence "'a list"

record ndarray =
  ndim :: nat
  flat :: "pyfloat list"

definition asarray :: "pyfloat array_like \<Rightarrow> ndarray" where
  "asarray w = (case w of
      Scalar v \<Rightarrow> \<lparr>ndim = 0, flat = [v]\<rparr>
    | Sequence vs \<Rightarrow> \<lparr>ndim = 1, flat = vs\<rparr>)"

definition ravel :: "ndarray \<Rightarrow> pyfloat list" where
  "ravel w = flat w"

text \<open>\<^verbatim>\<open>idx.any()\<close>\<close>

definition any :: "bool list \<Rightarrow> bool" where
  "any idx = list_ex (\<lambda>c. c) idx"

text \<open>
  \<^verbatim>\<open>np.empty(shape)\<close> returns a buffer whose contents are whatever the allocator
  left there. The contents are a parameter of the model: \<open>heap i\<close> is the value found at
  position \<open>i\<close>.
\<close>

definition np_empty :: "(nat \<Rightarrow> real) \<Rightarrow> nat \<Rightarrow> real list" where
  "np_empty heap n = map heap [0..<n]"

text \<open>Boolean-mask indexing: \<^verbatim>\<open>x[idx]\<close> keeps the selected elements, in order.\<close>

fun compress :: "bool list \<Rightarrow> 'a list \<Rightarrow> 'a list" where
  "compress (c # idx) (v # vs) = (if c then v # compress idx vs else compress idx vs)"
| "compress _ _ = []"

text \<open>
  Boolean-mask assignment: \<^verbatim>\<open>a[idx] = vals\<close> writes the values, in order, to the
  selected positions and leaves the others as they are.
\<close>

fun putmask :: "bool list \<Rightarrow> 'a list \<Rightarrow> 'a list \<Rightarrow> 'a list" where
  "putmask (True # idx) (a # as) (v # vs) = v # putmask idx as vs"
| "putmask (False # idx) (a # as) vs = a # putmask idx as vs"
| "putmask _ as _ = as"

text \<open>
  \<^verbatim>\<open>np.polyval(p, x)\<close>: Horner's scheme over \<open>p\<close>, whose first entry is the
  coefficient of the highest power. \<^verbatim>\<open>np.flipud\<close> reverses a one-dimensional array.
\<close>

definition polyval :: "real list \<Rightarrow> real list \<Rightarrow> real list" where
  "polyval p xs = map (\<lambda>x. foldl (\<lambda>y pv. y * x + pv) 0 p) xs"

definition flipud :: "'a list \<Rightarrow> 'a list" where
  "flipud c = rev c"

section \<open>Coefficient tables\<close>

definition c1_ccm :: "real list" where
  "c1_ccm = [1, 0.17699, -0.50447, -0.02427, 0.72085, 0.01979, -0.77530, 0.32999]"

definition c2_ccm :: "real list" where
  "c2_ccm = [0, 1.41338, 2.28305, 1.07233, -5.38434, -0.62251, 5.30260, -2.09002]"

definition c1_odonnell :: "real list" where
  "c1_odonnell = [1, 0.104, -0.609, 0.701, 1.137, -1.718, -0.827, 1.647, -0.505]"

definition c2_odonnell :: "real list" where
  "c2_odonnell = [0, 1.952, 2.908, -3.989, -7.985, 11.102, 5.491, -10.805, 3.347]"

definition c1_fuv :: "real list" where
  "c1_fuv = [-1.073, -0.628, 0.137, -0.070]"

definition c2_fuv :: "real list" where
  "c2_fuv = [13.670, 4.257, -0.420, 0.374]"

section \<open>Errors\<close>

datatype error = ValueError string

text \<open>
  \<^verbatim>\<open>repr\<close> of a string of ASCII characters: single quotes unless the string has a
  single quote and no double quote; backslash, the quote in use, newline, carriage return
  and tab are escaped, other control characters are written \<^verbatim>\<open>\xNN\<close>.
\<close>

definition hexdigit :: "nat \<Rightarrow> char" where
  "hexdigit n = ''0123456789abcdef'' ! (n mod 16)"

definition repr_char :: "char \<Rightarrow> char \<Rightarrow> string" where
  "repr_char q c =
     (if c = CHR 0x5C then [CHR 0x5C, CHR 0x5C]
      else if c = q then [CHR 0x5C, q]
      else if c = CHR 0x0A then [CHR 0x5C, CHR ''n'']
      else if c = CHR 0x0D then [CHR 0x5C, CHR ''r'']
      else if c = CHR 0x09 then [CHR 0x5C, CHR ''t'']
      else if of_char c < (32::nat) \<or> of_char c = (127::nat)
        then [CHR 0x5C, CHR ''x'', hexdigit (of_char c div 16), hexdigit (of_char c)]
      else [c])"

definition repr :: "string \<Rightarrow> string" where
  "repr s =
     (let q = (if CHR 0x27 \<in> set s \<and> CHR 0x22 \<notin> set s then CHR 0x22 else CHR 0x27)
      in [q] @ concat (map (repr_char q) s) @ [q])"

definition domain_error :: error where
  "domain_error =
     ValueError ''extinction only defined in wavelength range [909.091, 33333.3].''"

definition config_error :: "string \<Rightarrow> error" where
  "config_error optical_coeffs =
     ValueError (''Unrecognized optical_coeffs: '' @ repr optical_coeffs)"

section \<open>The extinction curve\<close>

subsection \<open>Masks\<close>

definition idx_range :: "pyfloat list \<Rightarrow> bool list" where
  "idx_range x = map (\<lambda>v. flt v 0.3 \<or> fgt v 11) x"

definition idx_infrared :: "pyfloat list \<Rightarrow> bool list" where
  "idx_infrared x = map (\<lambda>v. flt v 1.1) x"

definition idx_optical :: "pyfloat list \<Rightarrow> bool list" where
  "idx_optical x = map (\<lambda>v. fge v 1.1 \<and> flt v 3.3) x"

definition idx_miduv :: "pyfloat list \<Rightarrow> bool list" where
  "idx_miduv x = map (\<lambda>v. fge v 3.3 \<and> flt v 8) x"

definition idx_bump :: "pyfloat list \<Rightarrow> bool list" where
  "idx_bump x = map (\<lambda>v. fgt v 5.9 \<and> flt v 8) x"

definition idx_faruv :: "pyfloat list \<Rightarrow> bool list" where
  "idx_faruv x = map (\<lambda>v. fge v 8) x"

subsection \<open>The regions\<close>

text \<open>
  Each block of the function is a step on the pair of buffers \<open>(a, b)\<close>. A block is
  skipped when its mask selects nothing.
\<close>

type_synonym buffers = "real list \<times> real list"

definition infrared :: "pyfloat list \<Rightarrow> buffers \<Rightarrow> buffers" where
  "infrared x ab =
     (let idx = idx_infrared x in
      if any idx then
        (putmask idx (fst ab) (map (\<lambda>v. 0.574 * v powr 1.61) (map the_fin (compress idx x))),
         putmask idx (snd ab) (map (\<lambda>v. -0.527 * v powr 1.61) (map the_fin (compress idx x))))
      else ab)"

definition optical :: "string \<Rightarrow> pyfloat list \<Rightarrow> buffers \<Rightarrow> error + buffers" where
  "optical optical_coeffs x ab =
     (let idx = idx_optical x in
      if any idx then
        (let xp = map (\<lambda>v. v - 1.82) (map the_fin (compress idx x)) in
         if optical_coeffs = ''odonnell'' then
           Inr (putmask idx (fst ab) (polyval (flipud c1_odonnell) xp),
                putmask idx (snd ab) (polyval (flipud c2_odonnell) xp))
         else if optical_coeffs = ''ccm'' then
           Inr (putmask idx (fst ab) (polyval (flipud c1_ccm) xp),
                putmask idx (snd ab) (polyval (flipud c2_ccm) xp))
         else Inl (config_error optical_coeffs))
      else Inr ab)"

definition miduv :: "pyfloat list \<Rightarrow> buffers \<Rightarrow> buffers" where
  "miduv x ab =
     (let idx = idx_miduv x in
      if any idx then
        (let xp = map the_fin (compress idx x) in
         (putmask idx (fst ab)
            (map (\<lambda>v. 1.752 - 0.316 * v - 0.104 / ((v - 4.67)\<^sup>2 + 0.341)) xp),
          putmask idx (snd ab)
            (map (\<lambda>v. -3.090 + 1.825 * v + 1.206 / ((v - 4.67)\<^sup>2 + 0.263)) xp)))
      else ab)"

definition bump :: "pyfloat list \<Rightarrow> buffers \<Rightarrow> buffers" where
  "bump x ab =
     (let idx = idx_bump x in
      if any idx then
        (let xp = map (\<lambda>v. v - 5.9) (map the_fin (compress idx x)) in
         (putmask idx (fst ab)
            (map2 (+) (compress idx (fst ab))
               (map (\<lambda>v. -0.04473 * v\<^sup>2 - 0.009779 * v ^ 3) xp)),
          putmask idx (snd ab)
            (map2 (+) (compress idx (snd ab))
               (map (\<lambda>v. 0.2130 * v\<^sup>2 + 0.1207 * v ^ 3) xp))))
      else ab)"

definition faruv :: "pyfloat list \<Rightarrow> buffers \<Rightarrow> buffers" where
  "faruv x ab =
     (let idx = idx_faruv x in
      if any idx then
        (let xp = map (\<lambda>v. v - 8) (map the_fin (compress idx x)) in
         (putmask idx (fst ab) (polyval (flipud c1_fuv) xp),
          putmask idx (snd ab) (polyval (flipud c2_fuv) xp)))
      else ab)"

subsection \<open>The function\<close>

text \<open>
  \<open>coefficients\<close> is the body of the function from the validation to the last region:
  it returns the buffers \<open>a\<close> and \<open>b\<close>, or the error raised on the way.
  \<open>heap_a\<close> and \<open>heap_b\<close> are the contents of the two fresh buffers.
\<close>

definition coefficients ::
  "(nat \<Rightarrow> real) \<Rightarrow> (nat \<Rightarrow> real) \<Rightarrow> pyfloat list \<Rightarrow> string \<Rightarrow> error + buffers" where
  "coefficients heap_a heap_b x optical_coeffs =
     (if any (idx_range x) then Inl domain_error
      else
        (let a = np_empty heap_a (length x);
             b = np_empty heap_b (length x)
         in case optical optical_coeffs x (infrared x (a, b)) of
              Inl e \<Rightarrow> Inl e
            | Inr ab \<Rightarrow> Inr (faruv x (bump x (miduv x ab)))))"

definition extinction_ratio_ccm ::
  "(nat \<Rightarrow> real) \<Rightarrow> (nat \<Rightarrow> real) \<Rightarrow> pyfloat array_like \<Rightarrow> real \<Rightarrow> string
     \<Rightarrow> error + real array_like" where
  "extinction_ratio_ccm heap_a heap_b wavelength r_v optical_coeffs =
     (let wavelength = asarray wavelength;
          in_ndim = ndim wavelength;
          x = map inv_micron (ravel wavelength)
      in case coefficients heap_a heap_b x optical_coeffs of
           Inl e \<Rightarrow> Inl e
         | Inr (a, b) \<Rightarrow>
             (let extinction_ratio = map2 (\<lambda>a b. a * r_v + b) a b
              in if in_ndim = 0 then Inr (Scalar (extinction_ratio ! 0))
                 else Inr (Sequence extinction_ratio)))"

section \<open>The piecewise model in the words of the specification\<close>

text \<open>
  A polynomial whose coefficient list is read lowest degree first: the entry at index
  \<open>i\<close> multiplies the \<open>i\<close>-th power, so index 0 is the constant term.
\<close>

definition poly_low :: "real list \<Rightarrow> real \<Rightarrow> real" where
  "poly_low c xp = (\<Sum>i\<leftarrow>[0..<length c]. c ! i * xp ^ i)"

text \<open>
  The coefficients \<open>a(x)\<close> and \<open>b(x)\<close> of the four regions (infrared \<open>x < 1.1\<close>,
  optical/near-IR \<open>1.1 \<le> x < 3.3\<close>, mid-UV \<open>3.3 \<le> x < 8\<close>, far-UV \<open>x \<ge> 8\<close>),
  with the correction of the band \<open>5.9 < x < 8\<close> added on top of the mid-UV value.
  \<open>c1\<close> and \<open>c2\<close> are the tables selected for the optical/near-IR region.
\<close>

definition a_spec :: "real list \<Rightarrow> real \<Rightarrow> real" where
  "a_spec c1 x =
     (if x < 1.1 then 0.574 * x powr 1.61
      else if 1.1 \<le> x \<and> x < 3.3 then poly_low c1 (x - 1.82)
      else if 3.3 \<le> x \<and> x < 8 then
        1.752 - 0.316 * x - 0.104 / ((x - 4.67)\<^sup>2 + 0.341)
          + (if 5.9 < x \<and> x < 8
             then -0.04473 * (x - 5.9)\<^sup>2 - 0.009779 * (x - 5.9) ^ 3 else 0)
      else poly_low c1_fuv (x - 8))"

definition b_spec :: "real list \<Rightarrow> real \<Rightarrow> real" where
  "b_spec c2 x =
     (if x < 1.1 then -0.527 * x powr 1.61
      else if 1.1 \<le> x \<and> x < 3.3 then poly_low c2 (x - 1.82)
      else if 3.3 \<le> x \<and> x < 8 then
        -3.090 + 1.825 * x + 1.206 / ((x - 4.67)\<^sup>2 + 0.263)
          + (if 5.9 < x \<and> x < 8
             then 0.2130 * (x - 5.9)\<^sup>2 + 0.1207 * (x - 5.9) ^ 3 else 0)
      else poly_low c2_fuv (x - 8))"

section \<open>Notions used in the statements\<close>

text \<open>The tables that a recognised selector names.\<close>

definition optical_c1 :: "string \<Rightarrow> real list" where
  "optical_c1 optical_coeffs = (if optical_coeffs = ''odonnell'' then c1_odonnell else c1_ccm)"

definition optical_c2 :: "string \<Rightarrow> real list" where
  "optical_c2 optical_coeffs = (if optical_coeffs = ''odonnell'' then c2_odonnell else c2_ccm)"

definition recognised :: "string \<Rightarrow> bool" where
  "recognised optical_coeffs = (optical_coeffs = ''odonnell'' \<or> optical_coeffs = ''ccm'')"

text \<open>
  An element passes the validation when neither comparison of the range check holds for
  it; it is in the domain of the curve when it is a finite number of \<open>[0.3, 11]\<close>.
\<close>

definition passes :: "pyfloat \<Rightarrow> bool" where
  "passes v = (\<not> (flt v 0.3 \<or> fgt v 11))"

definition in_domain :: "pyfloat \<Rightarrow> bool" where
  "in_domain v = (case v of Fin r \<Rightarrow> 0.3 \<le> r \<and> r \<le> 11 | _ \<Rightarrow> False)"

text \<open>
  What the buffers hold for one element once every region has run: the value of the model
  for a finite element, the initial content \<open>g\<close> of the buffer otherwise.
\<close>

definition a_point :: "real list \<Rightarrow> real \<Rightarrow> pyfloat \<Rightarrow> real" where
  "a_point c1 g v = (case v of Fin r \<Rightarrow> a_spec c1 r | _ \<Rightarrow> g)"

definition b_point :: "real list \<Rightarrow> real \<Rightarrow> pyfloat \<Rightarrow> real" where
  "b_point c2 g v = (case v of Fin r \<Rightarrow> b_spec c2 r | _ \<Rightarrow> g)"

text \<open>The elements of an argument or of a result, in the order of the array.\<close>

fun elements :: "'a array_like \<Rightarrow> 'a list" where
  "elements (Scalar v) = [v]"
| "elements (Sequence vs) = vs"

text \<open>
  The ratio for one element once every region has run, from the initial contents
  \<open>ga\<close> and \<open>gb\<close> of the two buffers at its position.
\<close>

definition ratio_point ::
  "string \<Rightarrow> real \<Rightarrow> real \<Rightarrow> real \<Rightarrow> pyfloat \<Rightarrow> real" where
  "ratio_point optical_coeffs r_v ga gb v =
     a_point (optical_c1 optical_coeffs) ga v * r_v + b_point (optical_c2 optical_coeffs) gb v"

text \<open>Two possible contents of a fresh buffer: all zeros, and all ones.\<close>

definition zero_heap :: "nat \<Rightarrow> real" where
  "zero_heap i = 0"

definition one_heap :: "nat \<Rightarrow> real" where
  "one_heap i = 1"

section \<open>Lemmas\<close>

subsection \<open>Masked assignment and Horner's scheme\<close>

lemma any_map: "any (map p x) = (\<exists>v\<in>set x. p v)"
  by (induction x) (auto simp: any_def)

lemma putmask_compress:
  "length a = length x \<Longrightarrow>
   putmask (map p x) a (map f (compress (map p x) x)) = map2 (\<lambda>a v. if p v then f v else a) a x"
proof (induction x arbitrary: a)
  case Nil then show ?case by simp
next
  case (Cons v x)
  then obtain a0 as where "a = a0 # as" by (cases a) auto
  with Cons show ?case by (cases "p v") auto
qed

lemma putmask_add:
  "length a = length x \<Longrightarrow>
   putmask (map p x) a (map2 (+) (compress (map p x) a) (map f (compress (map p x) x)))
     = map2 (\<lambda>a v. if p v then a + f v else a) a x"
proof (induction x arbitrary: a)
  case Nil then show ?case by simp
next
  case (Cons v x)
  then obtain a0 as where "a = a0 # as" by (cases a) auto
  with Cons show ?case by (cases "p v") auto
qed

lemma map2_skip:
  "length a = length x \<Longrightarrow> \<forall>v\<in>set x. \<not> p v \<Longrightarrow> map2 (\<lambda>a v. if p v then f a v else a) a x = a"
proof (induction x arbitrary: a)
  case Nil then show ?case by simp
next
  case (Cons v x)
  then obtain a0 as where "a = a0 # as" by (cases a) auto
  with Cons show ?case by auto
qed

lemma horner_rev:
  "foldl (\<lambda>y pv. y * x + pv) 0 (rev c) = (\<Sum>i<length c. c ! i * x ^ i)" for x :: real
proof (induction c)
  case Nil then show ?case by simp
next
  case (Cons c0 c)
  have "(\<Sum>i<length (c0 # c). (c0 # c) ! i * x ^ i) = c0 + (\<Sum>i<length c. c ! i * x ^ i) * x"
    using sum.lessThan_Suc_shift [of "\<lambda>i. (c0 # c) ! i * x ^ i" "length c"]
    by (simp add: sum_distrib_left mult_ac del: sum.lessThan_Suc)
  with Cons show ?case by simp
qed

subsection \<open>Each region as a map over the elements\<close>

lemma np_empty_length: "length (np_empty h n) = n" by (simp add: np_empty_def)

lemma assign_some:
  "length a = length x \<Longrightarrow>
   putmask (map p x) a (map f (map g (compress (map p x) x)))
     = map2 (\<lambda>a v. if p v then f (g v) else a) a x"
  using putmask_compress [of a x p "\<lambda>v. f (g v)"] by (simp add: comp_def)

lemma assign_poly:
  "length a = length x \<Longrightarrow>
   putmask (map p x) a (polyval c (map h (map g (compress (map p x) x))))
     = map2 (\<lambda>a v. if p v then foldl (\<lambda>y pv. y * h (g v) + pv) 0 c else a) a x"
  using putmask_compress [of a x p "\<lambda>v. foldl (\<lambda>y pv. y * h (g v) + pv) 0 c"]
  by (simp add: comp_def polyval_def)

lemma assign_add:
  "length a = length x \<Longrightarrow>
   putmask (map p x) a (map2 (+) (compress (map p x) a) (map f (map h (map g (compress (map p x) x)))))
     = map2 (\<lambda>a v. if p v then a + f (h (g v)) else a) a x"
  using putmask_add [of a x p "\<lambda>v. f (h (g v))"] by (simp add: comp_def)

lemma assign_none:
  "length a = length x \<Longrightarrow> \<not> any (map p x) \<Longrightarrow>
   a = map2 (\<lambda>a v. if p v then f a v else a) a x"
  using map2_skip [of a x p f] by (simp add: any_map)

lemma stage_pair:
  assumes "c \<Longrightarrow> A = A'" "c \<Longrightarrow> B = B'" "\<not> c \<Longrightarrow> a = A'" "\<not> c \<Longrightarrow> b = B'"
  shows "(if c then (A, B) else (a, b)) = (A', B')"
  using assms by (cases c) simp_all

lemma infrared_map2:
  assumes "length a = length x" "length b = length x"
  shows "infrared x (a, b) =
    (map2 (\<lambda>a v. if flt v 1.1 then 0.574 * the_fin v powr 1.61 else a) a x,
     map2 (\<lambda>b v. if flt v 1.1 then -0.527 * the_fin v powr 1.61 else b) b x)"
  unfolding infrared_def Let_def idx_infrared_def fst_conv snd_conv
  by (rule stage_pair)
     (rule assign_some [OF assms(1)] assign_some [OF assms(2)]
           assign_none [OF assms(1)] assign_none [OF assms(2)]; assumption?)+

lemma miduv_map2:
  assumes "length a = length x" "length b = length x"
  shows "miduv x (a, b) =
    (map2 (\<lambda>a v. if fge v 3.3 \<and> flt v 8
                   then 1.752 - 0.316 * the_fin v - 0.104 / ((the_fin v - 4.67)\<^sup>2 + 0.341) else a) a x,
     map2 (\<lambda>b v. if fge v 3.3 \<and> flt v 8
                   then -3.090 + 1.825 * the_fin v + 1.206 / ((the_fin v - 4.67)\<^sup>2 + 0.263) else b) b x)"
  unfolding miduv_def Let_def idx_miduv_def fst_conv snd_conv
  by (rule stage_pair)
     (rule assign_some [OF assms(1)] assign_some [OF assms(2)]
           assign_none [OF assms(1)] assign_none [OF assms(2)]; assumption?)+

lemma bump_map2:
  assumes "length a = length x" "length b = length x"
  shows "bump x (a, b) =
    (map2 (\<lambda>a v. if fgt v 5.9 \<and> flt v 8
                   then a + (-0.04473 * (the_fin v - 5.9)\<^sup>2 - 0.009779 * (the_fin v - 5.9) ^ 3) else a) a x,
     map2 (\<lambda>b v. if fgt v 5.9 \<and> flt v 8
                   then b + (0.2130 * (the_fin v - 5.9)\<^sup>2 + 0.1207 * (the_fin v - 5.9) ^ 3) else b) b x)"
  unfolding bump_def Let_def idx_bump_def fst_conv snd_conv
  by (rule stage_pair)
     (rule assign_add [OF assms(1)] assign_add [OF assms(2)]
           assign_none [OF assms(1)] assign_none [OF assms(2)]; assumption?)+

lemma faruv_map2:
  assumes "length a = length x" "length b = length x"
  shows "faruv x (a, b) =
    (map2 (\<lambda>a v. if fge v 8
                   then foldl (\<lambda>y pv. y * (the_fin v - 8) + pv) 0 (flipud c1_fuv) else a) a x,
     map2 (\<lambda>b v. if fge v 8
                   then foldl (\<lambda>y pv. y * (the_fin v - 8) + pv) 0 (flipud c2_fuv) else b) b x)"
  unfolding faruv_def Let_def idx_faruv_def fst_conv snd_conv
  by (rule stage_pair)
     (rule assign_poly [OF assms(1)] assign_poly [OF assms(2)]
           assign_none [OF assms(1)] assign_none [OF assms(2)]; assumption?)+

lemma optical_map2:
  assumes "length a = length x" "length b = length x"
  shows "optical oc x (a, b) =
    (if (\<exists>v\<in>set x. fge v 1.1 \<and> flt v 3.3) \<and> \<not> recognised oc then Inl (config_error oc)
     else Inr
      (map2 (\<lambda>a v. if fge v 1.1 \<and> flt v 3.3
                     then foldl (\<lambda>y pv. y * (the_fin v - 1.82) + pv) 0 (flipud (optical_c1 oc)) else a) a x,
       map2 (\<lambda>b v. if fge v 1.1 \<and> flt v 3.3
                     then foldl (\<lambda>y pv. y * (the_fin v - 1.82) + pv) 0 (flipud (optical_c2 oc)) else b) b x))"
proof (cases "any (idx_optical x)")
  case False
  have "a = map2 (\<lambda>a v. if fge v 1.1 \<and> flt v 3.3
                     then foldl (\<lambda>y pv. y * (the_fin v - 1.82) + pv) 0 (flipud (optical_c1 oc)) else a) a x"
    by (rule assign_none [OF assms(1) False [unfolded idx_optical_def]])
  moreover have "b = map2 (\<lambda>b v. if fge v 1.1 \<and> flt v 3.3
                     then foldl (\<lambda>y pv. y * (the_fin v - 1.82) + pv) 0 (flipud (optical_c2 oc)) else b) b x"
    by (rule assign_none [OF assms(2) False [unfolded idx_optical_def]])
  moreover have "\<not> (\<exists>v\<in>set x. fge v 1.1 \<and> flt v 3.3)"
    using False by (simp add: idx_optical_def any_map)
  moreover have "optical oc x (a, b) = Inr (a, b)"
    using False by (simp only: optical_def Let_def if_False)
  ultimately show ?thesis by (simp only: if_False simp_thms)
next
  case True
  then have ex: "\<exists>v\<in>set x. fge v 1.1 \<and> flt v 3.3"
    by (simp add: idx_optical_def any_map)
  consider "oc = ''odonnell''" | "oc \<noteq> ''odonnell''" "oc = ''ccm''" | "\<not> recognised oc"
    unfolding recognised_def by blast
  then show ?thesis
  proof cases
    case 1
    then have r: "recognised oc" "optical_c1 oc = c1_odonnell" "optical_c2 oc = c2_odonnell"
      by (simp_all add: recognised_def optical_c1_def optical_c2_def)
    show ?thesis
      unfolding r using True 1 r(1)
      by (simp only: optical_def Let_def if_True fst_conv snd_conv simp_thms if_False
            assign_poly [OF assms(1), unfolded idx_optical_def [symmetric]]
            assign_poly [OF assms(2), unfolded idx_optical_def [symmetric]]
            idx_optical_def)
  next
    case 2
    then have r: "recognised oc" "optical_c1 oc = c1_ccm" "optical_c2 oc = c2_ccm"
      by (simp_all add: recognised_def optical_c1_def optical_c2_def)
    show ?thesis
      unfolding r using True 2 r(1)
      by (simp only: optical_def Let_def if_True fst_conv snd_conv simp_thms if_False
            assign_poly [OF assms(1)] assign_poly [OF assms(2)]
            idx_optical_def)
  next
    case 3
    then have "oc \<noteq> ''odonnell''" "oc \<noteq> ''ccm''" by (simp_all add: recognised_def)
    then show ?thesis using True 3 ex
      by (simp only: optical_def Let_def if_True if_False simp_thms)
  qed
qed

subsection \<open>The value of one element after all regions\<close>

lemma poly_low_horner:
  "foldl (\<lambda>y pv. y * xp + pv) 0 (flipud c) = poly_low c xp"
  by (simp add: flipud_def poly_low_def horner_rev interv_sum_list_conv_sum_set_nat atLeast0LessThan)

lemma passes_cases:
  assumes "passes v"
  obtains r where "v = Fin r" "0.3 \<le> r" "r \<le> 11" | "v = NaN"
  using assms by (cases v) (auto simp: passes_def)

lemma a_steps_point:
  assumes "passes v"
  shows "(if fge v 8 then foldl (\<lambda>y pv. y * (the_fin v - 8) + pv) 0 (flipud c1_fuv)
          else if fgt v 5.9 \<and> flt v 8
          then (if fge v 3.3 \<and> flt v 8
                then 1.752 - 0.316 * the_fin v - 0.104 / ((the_fin v - 4.67)\<^sup>2 + 0.341)
                else if fge v 1.1 \<and> flt v 3.3
                then foldl (\<lambda>y pv. y * (the_fin v - 1.82) + pv) 0 (flipud c1)
                else if flt v 1.1 then 0.574 * the_fin v powr 1.61 else g)
               + (-0.04473 * (the_fin v - 5.9)\<^sup>2 - 0.009779 * (the_fin v - 5.9) ^ 3)
          else (if fge v 3.3 \<and> flt v 8
                then 1.752 - 0.316 * the_fin v - 0.104 / ((the_fin v - 4.67)\<^sup>2 + 0.341)
                else if fge v 1.1 \<and> flt v 3.3
                then foldl (\<lambda>y pv. y * (the_fin v - 1.82) + pv) 0 (flipud c1)
                else if flt v 1.1 then 0.574 * the_fin v powr 1.61 else g))
         = a_point c1 g v"
  using assms
proof (cases rule: passes_cases)
  case (1 r)
  then show ?thesis
    unfolding poly_low_horner a_point_def a_spec_def by auto
next
  case 2
  then show ?thesis by (simp add: a_point_def)
qed

lemma b_steps_point:
  assumes "passes v"
  shows "(if fge v 8 then foldl (\<lambda>y pv. y * (the_fin v - 8) + pv) 0 (flipud c2_fuv)
          else if fgt v 5.9 \<and> flt v 8
          then (if fge v 3.3 \<and> flt v 8
                then -3.090 + 1.825 * the_fin v + 1.206 / ((the_fin v - 4.67)\<^sup>2 + 0.263)
                else if fge v 1.1 \<and> flt v 3.3
                then foldl (\<lambda>y pv. y * (the_fin v - 1.82) + pv) 0 (flipud c2)
                else if flt v 1.1 then -0.527 * the_fin v powr 1.61 else g)
               + (0.2130 * (the_fin v - 5.9)\<^sup>2 + 0.1207 * (the_fin v - 5.9) ^ 3)
          else (if fge v 3.3 \<and> flt v 8
                then -3.090 + 1.825 * the_fin v + 1.206 / ((the_fin v - 4.67)\<^sup>2 + 0.263)
                else if fge v 1.1 \<and> flt v 3.3
                then foldl (\<lambda>y pv. y * (the_fin v - 1.82) + pv) 0 (flipud c2)
                else if flt v 1.1 then -0.527 * the_fin v powr 1.61 else g))
         = b_point c2 g v"
  using assms
proof (cases rule: passes_cases)
  case (1 r)
  then show ?thesis
    unfolding poly_low_horner b_point_def b_spec_def by auto
next
  case 2
  then show ?thesis by (simp add: b_point_def)
qed

lemma map2_map2:
  "map2 f (map2 g a x) x = map2 (\<lambda>a v. f (g a v) v) a x"
proof (induction x arbitrary: a)
  case Nil then show ?case by simp
next
  case (Cons v x) then show ?case by (cases a) simp_all
qed

lemma map2_cong_right:
  assumes "\<And>g v. v \<in> set x \<Longrightarrow> f g v = f' g v"
  shows "map2 f a x = map2 f' a x"
  using assms by (auto dest: set_zip_rightD)

lemma len_map2: "length a = length x \<Longrightarrow> length (map2 f a x) = length x"
  by simp

lemma regions_map2:
  assumes la: "length a = length x" and lb: "length b = length x"
    and ok: "\<forall>v\<in>set x. passes v"
  shows "faruv x (bump x (miduv x
           (map2 (\<lambda>a v. if fge v 1.1 \<and> flt v 3.3
                     then foldl (\<lambda>y pv. y * (the_fin v - 1.82) + pv) 0 (flipud c1) else a)
              (map2 (\<lambda>a v. if flt v 1.1 then 0.574 * the_fin v powr 1.61 else a) a x) x,
            map2 (\<lambda>b v. if fge v 1.1 \<and> flt v 3.3
                     then foldl (\<lambda>y pv. y * (the_fin v - 1.82) + pv) 0 (flipud c2) else b)
              (map2 (\<lambda>b v. if flt v 1.1 then -0.527 * the_fin v powr 1.61 else b) b x) x)))
         = (map2 (a_point c1) a x, map2 (b_point c2) b x)"
proof -
  note l2 = len_map2 [OF len_map2 [OF la]] len_map2 [OF len_map2 [OF lb]]
  note l3 = len_map2 [OF l2(1)] len_map2 [OF l2(2)]
  note l4 = len_map2 [OF l3(1)] len_map2 [OF l3(2)]
  have pa: "\<And>g v. v \<in> set x \<Longrightarrow> 
       (if fge v 8 then foldl (\<lambda>y pv. y * (the_fin v - 8) + pv) 0 (flipud c1_fuv)
          else if fgt v 5.9 \<and> flt v 8
          then (if fge v 3.3 \<and> flt v 8
                then 1.752 - 0.316 * the_fin v - 0.104 / ((the_fin v - 4.67)\<^sup>2 + 0.341)
                else if fge v 1.1 \<and> flt v 3.3
                then foldl (\<lambda>y pv. y * (the_fin v - 1.82) + pv) 0 (flipud c1)
                else if flt v 1.1 then 0.574 * the_fin v powr 1.61 else g)
               + (-0.04473 * (the_fin v - 5.9)\<^sup>2 - 0.009779 * (the_fin v - 5.9) ^ 3)
          else (if fge v 3.3 \<and> flt v 8
                then 1.752 - 0.316 * the_fin v - 0.104 / ((the_fin v - 4.67)\<^sup>2 + 0.341)
                else if fge v 1.1 \<and> flt v 3.3
                then foldl (\<lambda>y pv. y * (the_fin v - 1.82) + pv) 0 (flipud c1)
                else if flt v 1.1 then 0.574 * the_fin v powr 1.61 else g))
         = a_point c1 g v"
    using ok by (intro a_steps_point) blast
  have pb: "\<And>g v. v \<in> set x \<Longrightarrow> 
       (if fge v 8 then foldl (\<lambda>y pv. y * (the_fin v - 8) + pv) 0 (flipud c2_fuv)
          else if fgt v 5.9 \<and> flt v 8
          then (if fge v 3.3 \<and> flt v 8
                then -3.090 + 1.825 * the_fin v + 1.206 / ((the_fin v - 4.67)\<^sup>2 + 0.263)
                else if fge v 1.1 \<and> flt v 3.3
                then foldl (\<lambda>y pv. y * (the_fin v - 1.82) + pv) 0 (flipud c2)
                else if flt v 1.1 then -0.527 * the_fin v powr 1.61 else g)
               + (0.2130 * (the_fin v - 5.9)\<^sup>2 + 0.1207 * (the_fin v - 5.9) ^ 3)
          else (if fge v 3.3 \<and> flt v 8
                then -3.090 + 1.825 * the_fin v + 1.206 / ((the_fin v - 4.67)\<^sup>2 + 0.263)
                else if fge v 1.1 \<and> flt v 3.3
                then foldl (\<lambda>y pv. y * (the_fin v - 1.82) + pv) 0 (flipud c2)
                else if flt v 1.1 then -0.527 * the_fin v powr 1.61 else g))
         = b_point c2 g v"
    using ok by (intro b_steps_point) blast
  show ?thesis
    apply (simp only: miduv_map2 [OF l2] bump_map2 [OF l3] faruv_map2 [OF l4])
    apply (simp only: map2_map2 prod.inject)
    apply (rule conjI)
     apply (rule map2_cong_right, erule pa)
    apply (rule map2_cong_right, erule pb)
    done
qed

subsection \<open>The function as a whole\<close>

lemma coefficients_eq:
  "coefficients ha hb x oc =
    (if \<exists>v\<in>set x. \<not> passes v then Inl domain_error
     else if (\<exists>v\<in>set x. fge v 1.1 \<and> flt v 3.3) \<and> \<not> recognised oc then Inl (config_error oc)
     else Inr (map2 (a_point (optical_c1 oc)) (np_empty ha (length x)) x,
               map2 (b_point (optical_c2 oc)) (np_empty hb (length x)) x))"
proof (cases "\<exists>v\<in>set x. \<not> passes v")
  case True
  then show ?thesis
    by (simp add: coefficients_def idx_range_def any_map passes_def)
next
  case False
  then have ok: "\<forall>v\<in>set x. passes v" by blast
  have nr: "\<not> any (idx_range x)"
    using ok by (simp add: idx_range_def any_map passes_def)
  note la = np_empty_length [of ha "length x"]
  note lb = np_empty_length [of hb "length x"]
  have unf: "coefficients ha hb x oc =
      (case optical oc x (infrared x (np_empty ha (length x), np_empty hb (length x))) of
         Inl e \<Rightarrow> Inl e | Inr ab \<Rightarrow> Inr (faruv x (bump x (miduv x ab))))"
    using nr by (simp only: coefficients_def Let_def if_False)
  show ?thesis
  proof (cases "(\<exists>v\<in>set x. fge v 1.1 \<and> flt v 3.3) \<and> \<not> recognised oc")
    case True
    then show ?thesis using False
      by (simp only: unf infrared_map2 [OF la lb] optical_map2 [OF len_map2 [OF la] len_map2 [OF lb]]
            if_True if_False sum.case simp_thms)
  next
    case c: False
    show ?thesis using False c
      by (simp only: unf infrared_map2 [OF la lb] optical_map2 [OF len_map2 [OF la] len_map2 [OF lb]]
            if_True if_False sum.case simp_thms regions_map2 [OF la lb ok])
  qed
qed

lemma ratio_map2:
  "map2 (\<lambda>a b. a * r_v + b)
     (map2 (a_point (optical_c1 oc)) (np_empty ha (length vs)) (map f vs))
     (map2 (b_point (optical_c2 oc)) (np_empty hb (length vs)) (map f vs))
   = map (\<lambda>i. ratio_point oc r_v (ha i) (hb i) (f (vs ! i))) [0..<length vs]"
  by (rule nth_equalityI) (simp_all add: np_empty_def ratio_point_def)

lemma extinction_unfold:
  "extinction_ratio_ccm ha hb w r_v oc =
     (case coefficients ha hb (map inv_micron (elements w)) oc of
        Inl e \<Rightarrow> Inl e
      | Inr ab \<Rightarrow> Inr (case w of
            Scalar _ \<Rightarrow> Scalar (map2 (\<lambda>a b. a * r_v + b) (fst ab) (snd ab) ! 0)
          | Sequence _ \<Rightarrow> Sequence (map2 (\<lambda>a b. a * r_v + b) (fst ab) (snd ab))))"
  by (cases w)
     (simp_all add: extinction_ratio_ccm_def Let_def asarray_def ravel_def
        split: sum.splits prod.splits)

lemma extinction_eq:
  "extinction_ratio_ccm ha hb w r_v oc =
    (if \<exists>v\<in>set (elements w). \<not> passes (inv_micron v) then Inl domain_error
     else if (\<exists>v\<in>set (elements w). fge (inv_micron v) 1.1 \<and> flt (inv_micron v) 3.3)
              \<and> \<not> recognised oc
       then Inl (config_error oc)
     else Inr (case w of
         Scalar _ \<Rightarrow> Scalar (map (\<lambda>i. ratio_point oc r_v (ha i) (hb i) (inv_micron (elements w ! i)))
                                [0..<length (elements w)] ! 0)
       | Sequence _ \<Rightarrow> Sequence (map (\<lambda>i. ratio_point oc r_v (ha i) (hb i) (inv_micron (elements w ! i)))
                                [0..<length (elements w)])))"
proof -
  let ?x = "map inv_micron (elements w)"
  let ?dom = "\<exists>v\<in>set (elements w). \<not> passes (inv_micron v)"
  let ?cfg = "(\<exists>v\<in>set (elements w). fge (inv_micron v) 1.1 \<and> flt (inv_micron v) 3.3)
              \<and> \<not> recognised oc"
  have d: "(\<exists>v\<in>set ?x. \<not> passes v) = ?dom" by simp
  have c: "((\<exists>v\<in>set ?x. fge v 1.1 \<and> flt v 3.3) \<and> \<not> recognised oc) = ?cfg" by simp
  have l: "length ?x = length (elements w)" by simp
  note ce = coefficients_eq [of ha hb ?x oc, unfolded d c l]
  consider (dom) ?dom | (cfg) "\<not> ?dom" ?cfg | (ok) "\<not> ?dom" "\<not> ?cfg" by blast
  then show ?thesis
  proof cases
    case dom
    then have "coefficients ha hb ?x oc = Inl domain_error" by (simp only: ce if_True simp_thms)
    then show ?thesis using dom by (simp only: extinction_unfold sum.case if_True simp_thms)
  next
    case cfg
    then have "coefficients ha hb ?x oc = Inl (config_error oc)"
      by (simp only: ce if_True if_False simp_thms)
    then show ?thesis using cfg by (simp only: extinction_unfold sum.case if_True if_False simp_thms)
  next
    case ok
    then have "coefficients ha hb ?x oc =
        Inr (map2 (a_point (optical_c1 oc)) (np_empty ha (length (elements w))) ?x,
             map2 (b_point (optical_c2 oc)) (np_empty hb (length (elements w))) ?x)"
      by (simp only: ce if_False simp_thms)
    then show ?thesis using ok
      by (simp only: extinction_unfold sum.case if_False fst_conv snd_conv ratio_map2 simp_thms)
  qed
qed



lemma ratio_point_Fin:
  "ratio_point oc r_v ga gb (Fin x) = a_spec (optical_c1 oc) x * r_v + b_spec (optical_c2 oc) x"
  by (simp add: ratio_point_def a_point_def b_point_def)


lemma in_domain_passes: "in_domain v \<Longrightarrow> passes v"
  by (cases v) (auto simp: in_domain_def passes_def)

lemma in_domain_cases:
  assumes "in_domain v"
  obtains r where "v = Fin r" "0.3 \<le> r" "r \<le> 11"
  using assms by (cases v) (auto simp: in_domain_def)

lemma coefficients_Inr:
  assumes "coefficients ha hb x oc = Inr (a, b)"
  shows "a = map2 (a_point (optical_c1 oc)) (np_empty ha (length x)) x"
    and "b = map2 (b_point (optical_c2 oc)) (np_empty hb (length x)) x"
    and "\<forall>v\<in>set x. passes v"
    and "(\<exists>v\<in>set x. fge v 1.1 \<and> flt v 3.3) \<longrightarrow> recognised oc"
  using assms unfolding coefficients_eq by (auto split: if_splits)

lemma coefficients_nth:
  assumes "coefficients ha hb x oc = Inr (a, b)" and "i < length x"
  shows "a ! i = a_point (optical_c1 oc) (ha i) (x ! i)"
    and "b ! i = b_point (optical_c2 oc) (hb i) (x ! i)"
    and "length a = length x" and "length b = length x"
  using coefficients_Inr(1,2) [OF assms(1)] assms(2) by (simp_all add: np_empty_def)

lemma a_spec_outside_optical:
  "\<not> (1.1 \<le> r \<and> r < 3.3) \<Longrightarrow> a_spec c r = a_spec c' r"
  by (auto simp: a_spec_def)

lemma b_spec_outside_optical:
  "\<not> (1.1 \<le> r \<and> r < 3.3) \<Longrightarrow> b_spec c r = b_spec c' r"
  by (auto simp: b_spec_def)

lemma ratio_point_outside_optical:
  assumes "in_domain v" and "\<not> (fge v 1.1 \<and> flt v 3.3)"
  shows "ratio_point oc r_v ga gb v = ratio_point oc' r_v ga' gb' v"
proof -
  from assms(1) obtain r where r: "v = Fin r" by (rule in_domain_cases)
  with assms(2) have "\<not> (1.1 \<le> r \<and> r < 3.3)" by simp
  then show ?thesis
    unfolding r ratio_point_Fin
    using a_spec_outside_optical [of r "optical_c1 oc" "optical_c1 oc'"]
          b_spec_outside_optical [of r "optical_c2 oc" "optical_c2 oc'"]
    by simp
qed

lemma extinction_success:
  assumes "\<forall>v\<in>set (elements w). passes (inv_micron v)"
    and "recognised oc \<or> \<not> (\<exists>v\<in>set (elements w). fge (inv_micron v) 1.1 \<and> flt (inv_micron v) 3.3)"
  shows "extinction_ratio_ccm ha hb w r_v oc = Inr (case w of
         Scalar _ \<Rightarrow> Scalar (map (\<lambda>i. ratio_point oc r_v (ha i) (hb i) (inv_micron (elements w ! i)))
                                [0..<length (elements w)] ! 0)
       | Sequence _ \<Rightarrow> Sequence (map (\<lambda>i. ratio_point oc r_v (ha i) (hb i) (inv_micron (elements w ! i)))
                                [0..<length (elements w)]))"
  unfolding extinction_eq using assms by auto

lemma elements_result:
  "elements (case w of
         Scalar _ \<Rightarrow> Scalar (map f [0..<length (elements w)] ! 0)
       | Sequence _ \<Rightarrow> Sequence (map f [0..<length (elements w)]))
   = map f [0..<length (elements w)]"
  by (cases w) simp_all


text \<open>The definitions of the function, for evaluating it on a concrete input.\<close>

lemmas model_defs =
  extinction_ratio_ccm_def asarray_def ravel_def coefficients_def
  infrared_def optical_def miduv_def bump_def faruv_def
  idx_range_def idx_infrared_def idx_optical_def idx_miduv_def idx_bump_def idx_faruv_def
  any_def np_empty_def polyval_def flipud_def Let_def

lemma selectors_differ_at_5000:
  "extinction_ratio_ccm zero_heap zero_heap (Scalar (Fin 5000)) 3.1 ''ccm''
     \<noteq> extinction_ratio_ccm zero_heap zero_heap (Scalar (Fin 5000)) 3.1 ''odonnell''"
  by (simp add: model_defs zero_heap_def c1_ccm_def c2_ccm_def c1_odonnell_def c2_odonnell_def)

section \<open>Properties of the function\<close>

subsection \<open>Validation of the range\<close>



text \<open>
  Claim C10. An element that is zero or negative always ends in the range error: a
  negative wavelength gives a negative \<open>x\<close>, which is below 0.3, and a zero
  wavelength gives \<open>x = +\<infinity>\<close>, which is above 11. (A wavelength of
  \<open>-\<infinity>\<close> gives \<open>x = 0\<close> and is refused as well.)
\<close>

theorem nonpositive_wavelength_raises:
  "(wl \<le> 0 \<and> Fin wl \<in> set (elements w) \<longrightarrow>
      extinction_ratio_ccm ha hb w r_v oc = Inl domain_error)
   \<and> (NInf \<in> set (elements w) \<longrightarrow>
      extinction_ratio_ccm ha hb w r_v oc = Inl domain_error)
   \<and> (wl < 0 \<longrightarrow> (\<exists>x. inv_micron (Fin wl) = Fin x \<and> x < 0 \<and> flt (Fin x) 0.3))
   \<and> inv_micron (Fin 0) = PInf \<and> fgt PInf 11"
proof -
  have "\<not> passes (inv_micron NInf)" by (simp add: passes_def)
  then have ninf: "NInf \<in> set (elements w) \<longrightarrow>
      extinction_ratio_ccm ha hb w r_v oc = Inl domain_error"
    unfolding extinction_eq by auto
  have "\<not> passes (inv_micron (Fin wl))" if "wl \<le> 0"
  proof (cases "wl = 0")
    case True then show ?thesis by (simp add: passes_def)
  next
    case False
    with that have "10000 / wl < 0" by (simp add: divide_neg_pos divide_pos_neg)
    then have "10000 / wl < 3 / 10" by linarith
    with False show ?thesis by (simp add: passes_def)
  qed
  then have "wl \<le> 0 \<and> Fin wl \<in> set (elements w) \<longrightarrow>
      extinction_ratio_ccm ha hb w r_v oc = Inl domain_error"
    unfolding extinction_eq by auto
  moreover have "wl < 0 \<longrightarrow> (\<exists>x. inv_micron (Fin wl) = Fin x \<and> x < 0 \<and> flt (Fin x) 0.3)"
  proof
    assume neg: "wl < 0"
    then have x: "10000 / wl < 0" by (simp add: divide_pos_neg)
    then have "10000 / wl < 0.3" by linarith
    then have "flt (Fin (10000 / wl)) 0.3" by (simp only: flt.simps)
    moreover have "inv_micron (Fin wl) = Fin (10000 / wl)" using neg by simp
    ultimately show "\<exists>x. inv_micron (Fin wl) = Fin x \<and> x < 0 \<and> flt (Fin x) 0.3"
      using x by blast
  qed
  ultimately show ?thesis using ninf by simp
qed

theorem nonpositive_wavelength_raises_witness:
  "extinction_ratio_ccm zero_heap zero_heap (Sequence [Fin 5000, Fin 0]) 3.1 ''odonnell'' = Inl domain_error
   \<and> extinction_ratio_ccm zero_heap zero_heap (Scalar (Fin (-5000))) 3.1 ''odonnell'' = Inl domain_error
   \<and> inv_micron (Fin (-5000)) = Fin (-2)"
  using nonpositive_wavelength_raises [of 0 "Sequence [Fin 5000, Fin 0]" zero_heap zero_heap "3.1" "''odonnell''"]
        nonpositive_wavelength_raises [of "-5000" "Scalar (Fin (-5000))" zero_heap zero_heap "3.1" "''odonnell''"]
  by simp

subsection \<open>The result on the domain of the curve\<close>




subsection \<open>The selector\<close>




subsection \<open>The regions\<close>

text \<open>
  Claim C4. An element with \<open>3.3 \<le> x < 8\<close> gets the mid-UV base formulas; when
  \<open>5.9 < x\<close> the two cubic terms in \<open>x - 5.9\<close> are added to them. The block of the
  correction adds to whatever the buffers hold (it does not overwrite), and leaves the
  elements with \<open>x \<le> 5.9\<close> as they are.
\<close>

theorem miduv_base_plus_bump:
  assumes "coefficients ha hb x oc = Inr (a, b)"
    and "i < length x" and "x ! i = Fin r" and "3.3 \<le> r" and "r < 8"
    and "length a0 = length x" and "length b0 = length x"
  shows "a ! i = 1.752 - 0.316 * r - 0.104 / ((r - 4.67)\<^sup>2 + 0.341)
                 + (if 5.9 < r then -0.04473 * (r - 5.9)\<^sup>2 - 0.009779 * (r - 5.9) ^ 3 else 0)
       \<and> b ! i = -3.090 + 1.825 * r + 1.206 / ((r - 4.67)\<^sup>2 + 0.263)
                 + (if 5.9 < r then 0.2130 * (r - 5.9)\<^sup>2 + 0.1207 * (r - 5.9) ^ 3 else 0)
       \<and> fst (miduv x (a0, b0)) ! i = 1.752 - 0.316 * r - 0.104 / ((r - 4.67)\<^sup>2 + 0.341)
       \<and> snd (miduv x (a0, b0)) ! i = -3.090 + 1.825 * r + 1.206 / ((r - 4.67)\<^sup>2 + 0.263)
       \<and> fst (bump x (a0, b0)) ! i
           = (if 5.9 < r then a0 ! i + (-0.04473 * (r - 5.9)\<^sup>2 - 0.009779 * (r - 5.9) ^ 3)
              else a0 ! i)
       \<and> snd (bump x (a0, b0)) ! i
           = (if 5.9 < r then b0 ! i + (0.2130 * (r - 5.9)\<^sup>2 + 0.1207 * (r - 5.9) ^ 3)
              else b0 ! i)"
proof -
  have a: "a ! i = a_spec (optical_c1 oc) r" and b: "b ! i = b_spec (optical_c2 oc) r"
    using coefficients_nth(1,2) [OF assms(1,2)] assms(3)
    by (simp_all add: a_point_def b_point_def)
  have 1: "a ! i = 1.752 - 0.316 * r - 0.104 / ((r - 4.67)\<^sup>2 + 0.341)
                 + (if 5.9 < r then -0.04473 * (r - 5.9)\<^sup>2 - 0.009779 * (r - 5.9) ^ 3 else 0)"
    unfolding a a_spec_def using assms(4,5) by simp
  have 2: "b ! i = -3.090 + 1.825 * r + 1.206 / ((r - 4.67)\<^sup>2 + 0.263)
                 + (if 5.9 < r then 0.2130 * (r - 5.9)\<^sup>2 + 0.1207 * (r - 5.9) ^ 3 else 0)"
    unfolding b b_spec_def using assms(4,5) by simp
  have 3: "fst (miduv x (a0, b0)) ! i = 1.752 - 0.316 * r - 0.104 / ((r - 4.67)\<^sup>2 + 0.341)"
    and 4: "snd (miduv x (a0, b0)) ! i = -3.090 + 1.825 * r + 1.206 / ((r - 4.67)\<^sup>2 + 0.263)"
    unfolding miduv_map2 [OF assms(6,7)] using assms(2-7) by simp_all
  have 5: "fst (bump x (a0, b0)) ! i
           = (if 5.9 < r then a0 ! i + (-0.04473 * (r - 5.9)\<^sup>2 - 0.009779 * (r - 5.9) ^ 3)
              else a0 ! i)"
    and 6: "snd (bump x (a0, b0)) ! i
           = (if 5.9 < r then b0 ! i + (0.2130 * (r - 5.9)\<^sup>2 + 0.1207 * (r - 5.9) ^ 3)
              else b0 ! i)"
    unfolding bump_map2 [OF assms(6,7)] using assms(2-7) by simp_all
  from 1 2 3 4 5 6 show ?thesis by (intro conjI)
qed

theorem miduv_base_plus_bump_witness:
  "coefficients zero_heap zero_heap [Fin 5, Fin 7] ''odonnell''
     = Inr ([1.752 - 0.316 * 5 - 0.104 / ((5 - 4.67)\<^sup>2 + 0.341),
             1.752 - 0.316 * 7 - 0.104 / ((7 - 4.67)\<^sup>2 + 0.341)
               + (-0.04473 * (7 - 5.9)\<^sup>2 - 0.009779 * (7 - 5.9) ^ 3)],
            [-3.090 + 1.825 * 5 + 1.206 / ((5 - 4.67)\<^sup>2 + 0.263),
             -3.090 + 1.825 * 7 + 1.206 / ((7 - 4.67)\<^sup>2 + 0.263)
               + (0.2130 * (7 - 5.9)\<^sup>2 + 0.1207 * (7 - 5.9) ^ 3)])
   \<and> [Fin 5, Fin 7] ! 1 = Fin 7 \<and> (3.3 :: real) \<le> 7 \<and> (7 :: real) < 8
   \<and> fst (miduv [Fin 5, Fin 7] ([10, 20], [30, 40])) ! 1
       = 1.752 - 0.316 * 7 - 0.104 / ((7 - 4.67)\<^sup>2 + 0.341)
   \<and> fst (bump [Fin 5, Fin 7] ([10, 20], [30, 40])) ! 1
       = 20 + (-0.04473 * (7 - 5.9)\<^sup>2 - 0.009779 * (7 - 5.9) ^ 3)
   \<and> snd (bump [Fin 5, Fin 7] ([10, 20], [30, 40])) ! 0 = 30"
proof -
  have c: "coefficients zero_heap zero_heap [Fin 5, Fin 7] ''odonnell''
     = Inr ([1.752 - 0.316 * 5 - 0.104 / ((5 - 4.67)\<^sup>2 + 0.341),
             1.752 - 0.316 * 7 - 0.104 / ((7 - 4.67)\<^sup>2 + 0.341)
               + (-0.04473 * (7 - 5.9)\<^sup>2 - 0.009779 * (7 - 5.9) ^ 3)],
            [-3.090 + 1.825 * 5 + 1.206 / ((5 - 4.67)\<^sup>2 + 0.263),
             -3.090 + 1.825 * 7 + 1.206 / ((7 - 4.67)\<^sup>2 + 0.263)
               + (0.2130 * (7 - 5.9)\<^sup>2 + 0.1207 * (7 - 5.9) ^ 3)])"
    by (simp add: coefficients_eq passes_def recognised_def np_empty_def
          a_point_def b_point_def a_spec_def b_spec_def)
  have l: "length [10, 20 :: real] = length [Fin 5, Fin 7]"
          "length [30, 40 :: real] = length [Fin 5, Fin 7]" by simp_all
  have "(1 :: nat) < length [Fin 5, Fin 7]" "[Fin 5, Fin 7] ! 1 = Fin 7"
       "(3.3 :: real) \<le> 7" "(7 :: real) < 8" "(0 :: nat) < length [Fin 5, Fin 7]"
       "[Fin 5, Fin 7] ! 0 = Fin 5" "(3.3 :: real) \<le> 5" "(5 :: real) < 8" by simp_all
  from miduv_base_plus_bump [OF c this(1-4) l] miduv_base_plus_bump [OF c this(5-8) l] c this(2-4)
  show ?thesis by simp
qed



text \<open>
  Claim C6. For wavelengths that are all in range, both selectors return a result, and
  the two results agree at every element whose \<open>x\<close> is outside \<open>[1.1, 3.3)\<close>; when no
  element is inside, the two results are equal. (Inside the interval they do differ, as
  at 5000 Angstrom.)
\<close>

theorem selectors_agree_outside_optical:
  assumes "\<forall>v\<in>set (elements w). in_domain (inv_micron v)"
  shows "\<exists>ys zs.
           extinction_ratio_ccm ha hb w r_v ''ccm'' = Inr ys
         \<and> extinction_ratio_ccm ha' hb' w r_v ''odonnell'' = Inr zs
         \<and> length (elements ys) = length (elements w)
         \<and> length (elements zs) = length (elements w)
         \<and> (\<forall>i<length (elements w).
              \<not> (fge (inv_micron (elements w ! i)) 1.1 \<and> flt (inv_micron (elements w ! i)) 3.3)
              \<longrightarrow> elements ys ! i = elements zs ! i)
         \<and> ((\<forall>v\<in>set (elements w). \<not> (fge (inv_micron v) 1.1 \<and> flt (inv_micron v) 3.3))
              \<longrightarrow> ys = zs)"
proof -
  let ?f = "\<lambda>oc ha hb i. ratio_point oc r_v (ha i) (hb i) (inv_micron (elements w ! i))"
  let ?res = "\<lambda>oc ha hb. case w of
         Scalar _ \<Rightarrow> Scalar (map (?f oc ha hb) [0..<length (elements w)] ! 0)
       | Sequence _ \<Rightarrow> Sequence (map (?f oc ha hb) [0..<length (elements w)])"
  have ps: "\<forall>v\<in>set (elements w). passes (inv_micron v)"
    using assms in_domain_passes by blast
  have c: "extinction_ratio_ccm ha hb w r_v ''ccm'' = Inr (?res ''ccm'' ha hb)"
    by (rule extinction_success [OF ps]) (simp add: recognised_def)
  have o: "extinction_ratio_ccm ha' hb' w r_v ''odonnell'' = Inr (?res ''odonnell'' ha' hb')"
    by (rule extinction_success [OF ps]) (simp add: recognised_def)
  have el: "elements (?res oc h h') = map (?f oc h h') [0..<length (elements w)]" for oc h h'
    by (rule elements_result)
  have pt: "?f ''ccm'' ha hb i = ?f ''odonnell'' ha' hb' i"
    if "i < length (elements w)"
       "\<not> (fge (inv_micron (elements w ! i)) 1.1 \<and> flt (inv_micron (elements w ! i)) 3.3)" for i
    using that assms by (intro ratio_point_outside_optical) auto
  have eqi: "\<forall>i<length (elements w).
              \<not> (fge (inv_micron (elements w ! i)) 1.1 \<and> flt (inv_micron (elements w ! i)) 3.3)
              \<longrightarrow> elements (?res ''ccm'' ha hb) ! i = elements (?res ''odonnell'' ha' hb') ! i"
    unfolding el using pt by simp
  have all: "?res ''ccm'' ha hb = ?res ''odonnell'' ha' hb'"
    if "\<forall>v\<in>set (elements w). \<not> (fge (inv_micron v) 1.1 \<and> flt (inv_micron v) 3.3)"
  proof -
    have "map (?f ''ccm'' ha hb) [0..<length (elements w)]
        = map (?f ''odonnell'' ha' hb') [0..<length (elements w)]"
      using pt that by (intro map_cong refl) auto
    then show ?thesis by (simp only:)
  qed
  show ?thesis
    apply (rule exI [of _ "?res ''ccm'' ha hb"], rule exI [of _ "?res ''odonnell'' ha' hb'"])
    using c o eqi all unfolding el by simp
qed

theorem selectors_agree_outside_optical_witness:
  "in_domain (inv_micron (Fin 20000)) \<and> in_domain (inv_micron (Fin 2000))
   \<and> in_domain (inv_micron (Fin 1000))
   \<and> extinction_ratio_ccm zero_heap zero_heap (Sequence [Fin 20000, Fin 2000, Fin 1000]) 3.1 ''ccm''
     = extinction_ratio_ccm one_heap one_heap (Sequence [Fin 20000, Fin 2000, Fin 1000]) 3.1 ''odonnell''
   \<and> extinction_ratio_ccm zero_heap zero_heap (Scalar (Fin 5000)) 3.1 ''ccm''
     \<noteq> extinction_ratio_ccm zero_heap zero_heap (Scalar (Fin 5000)) 3.1 ''odonnell''"
  using selectors_agree_outside_optical
     [of "Sequence [Fin 20000, Fin 2000, Fin 1000]" zero_heap zero_heap "3.1" one_heap one_heap]
    selectors_differ_at_5000
  by (auto simp: in_domain_def)



subsection \<open>Shape of the result\<close>

text \<open>
  Claim C8. A scalar argument gives a scalar result and a sequence of \<open>N\<close> wavelengths a
  sequence of \<open>N\<close> values (a sequence of length 1 stays a sequence). The \<open>i\<close>-th value
  is the one the function returns for the \<open>i\<close>-th wavelength alone. In-range wavelengths
  with a recognised selector always give a result.
\<close>

theorem output_shape_mirrors_input:
  "(extinction_ratio_ccm ha hb (Scalar v) r_v oc = Inr y \<longrightarrow> (\<exists>s. y = Scalar s))
   \<and> (extinction_ratio_ccm ha hb (Sequence vs) r_v oc = Inr z \<longrightarrow>
        (\<exists>ys. z = Sequence ys \<and> length ys = length vs
           \<and> (\<forall>i<length vs. in_domain (inv_micron (vs ! i)) \<longrightarrow>
                extinction_ratio_ccm ha' hb' (Scalar (vs ! i)) r_v oc = Inr (Scalar (ys ! i)))))
   \<and> (in_domain (inv_micron v) \<and> recognised oc \<longrightarrow>
        (\<exists>s. extinction_ratio_ccm ha hb (Scalar v) r_v oc = Inr (Scalar s)))
   \<and> ((\<forall>v\<in>set vs. in_domain (inv_micron v)) \<and> recognised oc \<longrightarrow>
        (\<exists>ys. extinction_ratio_ccm ha hb (Sequence vs) r_v oc = Inr (Sequence ys)
              \<and> length ys = length vs))"
proof (intro conjI impI)
  assume "extinction_ratio_ccm ha hb (Scalar v) r_v oc = Inr y"
  then show "\<exists>s. y = Scalar s"
    unfolding extinction_eq by (auto split: if_splits)
next
  assume z: "extinction_ratio_ccm ha hb (Sequence vs) r_v oc = Inr z"
  let ?f = "\<lambda>i. ratio_point oc r_v (ha i) (hb i) (inv_micron (vs ! i))"
  from z have zs: "z = Sequence (map ?f [0..<length vs])"
    and ps: "\<forall>v\<in>set vs. passes (inv_micron v)"
    and rc: "(\<exists>v\<in>set vs. fge (inv_micron v) 1.1 \<and> flt (inv_micron v) 3.3) \<longrightarrow> recognised oc"
    unfolding extinction_eq by (auto split: if_splits)
  have "extinction_ratio_ccm ha' hb' (Scalar (vs ! i)) r_v oc = Inr (Scalar (map ?f [0..<length vs] ! i))"
    if i: "i < length vs" and d: "in_domain (inv_micron (vs ! i))" for i
  proof -
    from d obtain r where r: "inv_micron (vs ! i) = Fin r" by (rule in_domain_cases)
    have "vs ! i \<in> set vs" using i by simp
    with ps rc have "passes (inv_micron (vs ! i))"
      "fge (inv_micron (vs ! i)) 1.1 \<and> flt (inv_micron (vs ! i)) 3.3 \<longrightarrow> recognised oc"
      by blast+
    then show ?thesis
      unfolding extinction_eq using i by (auto simp: r ratio_point_Fin)
  qed
  with zs show "\<exists>ys. z = Sequence ys \<and> length ys = length vs
           \<and> (\<forall>i<length vs. in_domain (inv_micron (vs ! i)) \<longrightarrow>
                extinction_ratio_ccm ha' hb' (Scalar (vs ! i)) r_v oc = Inr (Scalar (ys ! i)))"
    by (intro exI [of _ "map ?f [0..<length vs]"]) simp
next
  assume "in_domain (inv_micron v) \<and> recognised oc"
  then show "\<exists>s. extinction_ratio_ccm ha hb (Scalar v) r_v oc = Inr (Scalar s)"
    unfolding extinction_eq using in_domain_passes by auto
next
  assume "(\<forall>v\<in>set vs. in_domain (inv_micron v)) \<and> recognised oc"
  then show "\<exists>ys. extinction_ratio_ccm ha hb (Sequence vs) r_v oc = Inr (Sequence ys)
              \<and> length ys = length vs"
    unfolding extinction_eq using in_domain_passes by auto
qed

theorem output_shape_mirrors_input_witness:
  "in_domain (inv_micron (Fin 1000)) \<and> in_domain (inv_micron (Fin (500000 / 91)))
   \<and> recognised ''odonnell''
   \<and> extinction_ratio_ccm zero_heap zero_heap (Scalar (Fin 1000)) 3.1 ''odonnell''
       = Inr (Scalar 16.2389)
   \<and> extinction_ratio_ccm zero_heap zero_heap (Sequence [Fin 1000]) 3.1 ''odonnell''
       = Inr (Sequence [16.2389])
   \<and> extinction_ratio_ccm zero_heap zero_heap (Sequence [Fin 1000, Fin (500000 / 91)]) 3.1 ''odonnell''
       = Inr (Sequence [16.2389, 3.1])
   \<and> extinction_ratio_ccm zero_heap zero_heap (Sequence [Fin (500000 / 91), Fin 1000]) 3.1 ''odonnell''
       = Inr (Sequence [3.1, 16.2389])
   \<and> extinction_ratio_ccm zero_heap zero_heap (Sequence []) 3.1 ''odonnell'' = Inr (Sequence [])"
proof -
  have s: "extinction_ratio_ccm zero_heap zero_heap (Scalar (Fin 1000)) 3.1 ''odonnell''
       = Inr (Scalar 16.2389)"
    by (simp add: extinction_eq passes_def recognised_def ratio_point_Fin a_spec_def b_spec_def
          poly_low_def c1_fuv_def c2_fuv_def)
  have q: "extinction_ratio_ccm zero_heap zero_heap (Sequence [Fin 1000, Fin (500000 / 91)]) 3.1 ''odonnell''
       = Inr (Sequence [16.2389, 3.1])"
    by (simp add: extinction_eq passes_def recognised_def ratio_point_Fin a_spec_def b_spec_def
          poly_low_def c1_fuv_def c2_fuv_def optical_c1_def optical_c2_def
          c1_odonnell_def c2_odonnell_def)
  have q': "extinction_ratio_ccm zero_heap zero_heap (Sequence [Fin (500000 / 91), Fin 1000]) 3.1 ''odonnell''
       = Inr (Sequence [3.1, 16.2389])"
    by (simp add: extinction_eq passes_def recognised_def ratio_point_Fin a_spec_def b_spec_def
          poly_low_def c1_fuv_def c2_fuv_def optical_c1_def optical_c2_def
          c1_odonnell_def c2_odonnell_def)
  have q1: "extinction_ratio_ccm zero_heap zero_heap (Sequence [Fin 1000]) 3.1 ''odonnell''
       = Inr (Sequence [16.2389])"
    by (simp add: extinction_eq passes_def recognised_def ratio_point_Fin a_spec_def b_spec_def
          poly_low_def c1_fuv_def c2_fuv_def)
  have e: "extinction_ratio_ccm zero_heap zero_heap (Sequence []) 3.1 ''odonnell'' = Inr (Sequence [])"
    by (simp add: extinction_eq)
  from output_shape_mirrors_input [of zero_heap zero_heap "Fin 1000" "3.1" "''odonnell''"
      "Scalar 16.2389" "[Fin 1000, Fin (500000 / 91)]" "Sequence [16.2389, 3.1]" zero_heap zero_heap]
    s q q' q1 e
  show ?thesis by (simp add: in_domain_def recognised_def)
qed

subsection \<open>Dependence on the fresh buffers\<close>

text \<open>
  The model has no state besides the contents of the two buffers that
  \<^verbatim>\<open>np.empty\<close> returns. When no wavelength is NaN, the result does not depend on them:
  every element that passes the range check is then written by one of the regions.
\<close>

lemma deterministic_without_nan:
  assumes "NaN \<notin> set (elements w)"
  shows "extinction_ratio_ccm ha hb w r_v oc = extinction_ratio_ccm ha' hb' w r_v oc"
proof (cases "\<exists>v\<in>set (elements w). \<not> passes (inv_micron v)")
  case True
  then show ?thesis by (simp only: extinction_eq if_True)
next
  case False
  have fin: "\<exists>r. inv_micron v = Fin r" if "v \<in> set (elements w)" for v
  proof -
    from that assms have "v \<noteq> NaN" by blast
    moreover from that False have "passes (inv_micron v)" by blast
    ultimately show ?thesis by (cases v) (auto simp: passes_def)
  qed
  have "ratio_point oc r_v (ha i) (hb i) (inv_micron (elements w ! i))
      = ratio_point oc r_v (ha' i) (hb' i) (inv_micron (elements w ! i))"
    if "i < length (elements w)" for i
    using fin [of "elements w ! i"] that by (auto simp: ratio_point_Fin)
  then have "map (\<lambda>i. ratio_point oc r_v (ha i) (hb i) (inv_micron (elements w ! i)))
                 [0..<length (elements w)]
           = map (\<lambda>i. ratio_point oc r_v (ha' i) (hb' i) (inv_micron (elements w ! i)))
                 [0..<length (elements w)]"
    by (intro map_cong refl) simp
  then show ?thesis unfolding extinction_eq by (simp only:)
qed

text \<open>
  Claim C9. A NaN wavelength passes the range check, because both comparisons with NaN
  are false, and is selected by no region, for the same reason. Its \<open>a\<close> and \<open>b\<close> are
  never written, and the value returned for it is computed from what the two fresh
  buffers happened to contain: two calls with the same arguments can return different
  values.
\<close>

theorem nan_returns_buffer_contents:
  "extinction_ratio_ccm ha hb (Scalar NaN) r_v oc = Inr (Scalar (ha 0 * r_v + hb 0))
   \<and> extinction_ratio_ccm zero_heap zero_heap (Scalar NaN) 3.1 ''odonnell'' = Inr (Scalar 0)
   \<and> extinction_ratio_ccm one_heap one_heap (Scalar NaN) 3.1 ''odonnell'' = Inr (Scalar 4.1)
   \<and> extinction_ratio_ccm one_heap zero_heap (Sequence [Fin 1000, NaN]) 3.1 ''odonnell''
       = Inr (Sequence [16.2389, 3.1])"
  by (simp add: model_defs zero_heap_def one_heap_def c1_fuv_def c2_fuv_def)

end
